theory Spec2Isabelle
  imports Complex_Main
begin

section \<open>The SharpPoint broker of \<^verbatim>\<open>sptrader/spbroker.py\<close>\<close>

text \<open>
  The class \<^verbatim>\<open>SharpPointBroker\<close> keeps cash, an order registry, a position table and
  a queue of notifications, and is driven by callbacks of a store.  Its methods mutate
  the broker object and the order objects they are given, so the model threads one
  state record through every method and keeps the order objects in a heap: a method
  that takes or stores an order takes or stores the address of the object.

  A method returns a pair: what the call produced (\<open>Inr\<close> the returned value, \<open>Inl\<close> the
  exception that left the method) and the state afterwards.  The state is returned in
  both cases, because what a Python method assigned before it raised stays assigned.
\<close>

subsection \<open>Data\<close>

type_synonym addr = nat

text \<open>The status codes of an order (\<^verbatim>\<open>Order.Created\<close>, ..., \<^verbatim>\<open>Order.Rejected\<close>).\<close>

datatype status =
  Created | Submitted | Accepted | Partial | Completed | Cancelled | Expired | Margin | Rejected

text \<open>
  The exceptions that the broker's own statements raise: \<^verbatim>\<open>KeyError\<close> from
  \<^verbatim>\<open>self.orders[...]\<close>, \<^verbatim>\<open>TypeError\<close> from a call with a keyword the callee does
  not take, \<^verbatim>\<open>AttributeError\<close> from a method the object does not have.  \<open>Raised\<close> is
  any exception that comes out of a collaborator.
\<close>

datatype error = KeyError | TypeError | AttributeError | Raised string

text \<open>
  The fields of an order object that the broker reads (\<^verbatim>\<open>ref\<close>, \<^verbatim>\<open>status\<close>,
  \<^verbatim>\<open>data\<close>, \<^verbatim>\<open>executed.remsize\<close>) and those an execution writes.  A data feed is
  named by a number.  \<^verbatim>\<open>order.info\<close> is a dictionary, an object of its own: the field
  \<open>info\<close> is its address, so that two order objects can hold the same dictionary.
\<close>

record order =
  ref :: nat
  status :: status
  data :: nat
  osize :: real
  ex_size :: real
  ex_price :: real
  ex_remsize :: real
  info :: addr

record position =
  pos_size :: real
  pos_price :: real

text \<open>
  The broker object.  \<open>p_cash\<close>, \<open>p_checksubmit\<close> and \<open>p_eosbar\<close> are the parameters
  \<^verbatim>\<open>self.p.cash\<close>, \<^verbatim>\<open>self.p.checksubmit\<close> and \<^verbatim>\<open>self.p.eosbar\<close>; \<open>store\<close> is the state
  of the store object \<^verbatim>\<open>self.o\<close>; \<open>heap\<close> holds the order objects and \<open>nxt\<close> is the
  first address not yet given to an object.  \<open>infos\<close> holds the info dictionaries.  An
  entry of \<open>notifs\<close> is the address of a snapshot, or \<open>None\<close> for the boundary marker
  that \<^verbatim>\<open>next\<close> appends.
\<close>

record 's broker =
  startingcash :: real
  cash :: real
  p_cash :: real
  p_checksubmit :: bool
  p_eosbar :: bool
  orders :: "nat \<rightharpoonup> addr"
  pending :: "addr list"
  positions :: "nat \<rightharpoonup> position"
  notifs :: "addr option list"
  submitted :: "addr list"
  store :: 's
  heap :: "addr \<Rightarrow> order"
  nxt :: addr
  infos :: "addr \<Rightarrow> (string \<rightharpoonup> string)"

text \<open>
  The parameter \<^verbatim>\<open>filler\<close> and the log file \<^verbatim>\<open>f\<close> are left out: no method below
  reads them.
\<close>

subsection \<open>Collaborators\<close>

text \<open>
  The broker is written against classes that are imported, not defined, in its file:
  \<^verbatim>\<open>Order\<close>, \<^verbatim>\<open>BuyOrder\<close>, \<^verbatim>\<open>SellOrder\<close> and \<^verbatim>\<open>Position\<close> of backtrader, the
  base class \<^verbatim>\<open>bt.BrokerBase\<close>, the data feed of an order, and the store
  \<^verbatim>\<open>spstore.SharpPointStore\<close>.  Their methods are parameters of the model, gathered in
  one record, and every general result below holds for whatever they do.  A method of an order
  takes the content of the object and returns the content it leaves, or the exception
  it raises; it touches nothing else.  \<^verbatim>\<open>addinfo\<close> does the same with the content of
  the info dictionary.  The flag of the five life-cycle methods says whether the broker
  itself was passed as argument (\<^verbatim>\<open>order.submit(self)\<close>) or not (\<^verbatim>\<open>order.accept()\<close>).
\<close>

text \<open>The thirteen arguments of \<^verbatim>\<open>order.execute\<close>, in the order of the call.\<close>

record exec_args =
  x_dt :: real
  x_size :: real
  x_price :: real
  x_closed :: real
  x_closedvalue :: real
  x_closedcomm :: real
  x_opened :: real
  x_openedvalue :: real
  x_openedcomm :: real
  x_margin :: real
  x_pnl :: real
  x_psize :: real
  x_pprice :: real

text \<open>The named arguments that \<^verbatim>\<open>buy\<close> and \<^verbatim>\<open>sell\<close> hand to the order constructor.\<close>

record order_args =
  a_owner :: nat
  a_data :: nat
  a_size :: real
  a_price :: "real option"
  a_pricelimit :: "real option"
  a_exectype :: "nat option"
  a_valid :: "real option"
  a_tradeid :: nat

record 's ext =
  Order_submit :: "bool \<Rightarrow> order \<Rightarrow> error + order"
  Order_accept :: "bool \<Rightarrow> order \<Rightarrow> error + order"
  Order_reject :: "bool \<Rightarrow> order \<Rightarrow> error + order"
  Order_cancel :: "bool \<Rightarrow> order \<Rightarrow> error + order"
  Order_expire :: "bool \<Rightarrow> order \<Rightarrow> error + order"
  Order_execute :: "exec_args \<Rightarrow> order \<Rightarrow> error + order"
  Order_partial :: "order \<Rightarrow> error + order"
  Order_completed :: "order \<Rightarrow> error + order"
  Order_clone :: "order \<Rightarrow> error + order"
  Order_addinfo ::
    "(string \<times> string) list \<Rightarrow> (string \<rightharpoonup> string) \<Rightarrow> error + (string \<rightharpoonup> string)"
  BuyOrder :: "order_args \<Rightarrow> error + order"
  SellOrder :: "order_args \<Rightarrow> error + order"
  Position_update :: "real \<Rightarrow> real \<Rightarrow> position \<Rightarrow> error + ((real \<times> real \<times> real \<times> real) \<times> position)"
  datetime0 :: "nat \<Rightarrow> error + real"
  getcommissioninfo :: "nat \<Rightarrow> error + unit"
  submit_accept :: "'s broker \<Rightarrow> addr \<Rightarrow> (error + unit) \<times> 's broker"
  order_create :: "order \<Rightarrow> 's \<Rightarrow> error + (nat \<times> 's)"
  order_cancel :: "order \<Rightarrow> 's \<Rightarrow> error + (nat \<times> 's)"

subsection \<open>Cash and value\<close>

definition get_cash :: "'s broker \<Rightarrow> (error + real) \<times> 's broker" where
  "get_cash b = (Inr (cash b), b)"

definition set_cash :: "'s broker \<Rightarrow> real \<Rightarrow> (error + unit) \<times> 's broker" where
  "set_cash b c = (Inr (), b\<lparr>startingcash := c, cash := c, p_cash := c\<rparr>)"

text \<open>\<^verbatim>\<open>get_value(self, datas=None)\<close>: the argument is a list of data feeds or \<open>None\<close>.\<close>

definition get_value :: "'s broker \<Rightarrow> nat list option \<Rightarrow> (error + real) \<times> 's broker" where
  "get_value b datas = (Inr 0, b)"

subsection \<open>The notification queue\<close>

text \<open>
  The class defines \<^verbatim>\<open>get_notification\<close> twice; the second definition (the one at the
  end of the class body) is the one the class keeps.
\<close>

definition get_notification :: "'s broker \<Rightarrow> (error + addr option) \<times> 's broker" where
  "get_notification b =
     (case notifs b of
        [] \<Rightarrow> (Inr None, b)
      | n # ns \<Rightarrow> (Inr n, b\<lparr>notifs := ns\<rparr>))"

definition broker_next :: "'s broker \<Rightarrow> (error + unit) \<times> 's broker" where
  "broker_next b = (Inr (), b\<lparr>notifs := notifs b @ [None]\<rparr>)"

text \<open>Calling \<^verbatim>\<open>get_notification\<close> \<open>k\<close> times in a row: the results, and the last state.\<close>

fun poll :: "nat \<Rightarrow> 's broker \<Rightarrow> (error + addr option) list \<times> 's broker" where
  "poll 0 b = ([], b)"
| "poll (Suc k) b =
     (let (r, b1) = get_notification b; (rs, b2) = poll k b1 in (r # rs, b2))"

subsection \<open>Notifying\<close>

text \<open>
  \<^verbatim>\<open>notify\<close> appends \<^verbatim>\<open>order.clone()\<close>: the clone is a new object, so it gets the
  address \<open>nxt\<close>, and the queue holds that address, not the one of the order.
\<close>

definition notify :: "'s ext \<Rightarrow> 's broker \<Rightarrow> addr \<Rightarrow> (error + unit) \<times> 's broker" where
  "notify x b a =
     (case Order_clone x (heap b a) of
        Inl e \<Rightarrow> (Inl e, b)
      | Inr c \<Rightarrow>
          (Inr (), b\<lparr>heap := (heap b)(nxt b := c), nxt := Suc (nxt b),
                      notifs := notifs b @ [Some (nxt b)]\<rparr>))"

subsection \<open>The registry and the callbacks of the store\<close>

definition orderstatus :: "'s broker \<Rightarrow> addr \<Rightarrow> (error + status) \<times> 's broker" where
  "orderstatus b a =
     (case orders b (ref (heap b a)) of
        None \<Rightarrow> (Inl KeyError, b)
      | Some a' \<Rightarrow> (Inr (status (heap b a')), b))"

text \<open>
  The five callbacks \<^verbatim>\<open>_submit\<close>, \<^verbatim>\<open>_reject\<close>, \<^verbatim>\<open>_accept\<close>, \<^verbatim>\<open>_cancel\<close> and
  \<^verbatim>\<open>_expire\<close> have the same three lines: look the order up, call its method, notify.
  \<open>lookup_call_notify\<close> is those three lines with the method left open.  A name cannot
  start with an underscore here, so \<^verbatim>\<open>_submit\<close> is \<open>u_submit\<close>, and so on.
\<close>

definition lookup_call_notify ::
  "'s ext \<Rightarrow> (order \<Rightarrow> error + order) \<Rightarrow> 's broker \<Rightarrow> nat \<Rightarrow> (error + unit) \<times> 's broker" where
  "lookup_call_notify x m b oref =
     (case orders b oref of
        None \<Rightarrow> (Inl KeyError, b)
      | Some a \<Rightarrow>
          (case m (heap b a) of
             Inl e \<Rightarrow> (Inl e, b)
           | Inr ord1 \<Rightarrow> notify x (b\<lparr>heap := (heap b)(a := ord1)\<rparr>) a))"

definition u_submit :: "'s ext \<Rightarrow> 's broker \<Rightarrow> nat \<Rightarrow> (error + unit) \<times> 's broker" where
  "u_submit x b oref = lookup_call_notify x (Order_submit x True) b oref"

definition u_reject :: "'s ext \<Rightarrow> 's broker \<Rightarrow> nat \<Rightarrow> (error + unit) \<times> 's broker" where
  "u_reject x b oref = lookup_call_notify x (Order_reject x True) b oref"

definition u_accept :: "'s ext \<Rightarrow> 's broker \<Rightarrow> nat \<Rightarrow> (error + unit) \<times> 's broker" where
  "u_accept x b oref = lookup_call_notify x (Order_accept x False) b oref"

definition u_cancel :: "'s ext \<Rightarrow> 's broker \<Rightarrow> nat \<Rightarrow> (error + unit) \<times> 's broker" where
  "u_cancel x b oref = lookup_call_notify x (Order_cancel x True) b oref"

definition u_expire :: "'s ext \<Rightarrow> 's broker \<Rightarrow> nat \<Rightarrow> (error + unit) \<times> 's broker" where
  "u_expire x b oref = lookup_call_notify x (Order_expire x True) b oref"

datatype transition = Submit | Accept | Reject | Cancel | Expire

fun method_of :: "'s ext \<Rightarrow> transition \<Rightarrow> order \<Rightarrow> error + order" where
  "method_of x Submit = Order_submit x True"
| "method_of x Accept = Order_accept x False"
| "method_of x Reject = Order_reject x True"
| "method_of x Cancel = Order_cancel x True"
| "method_of x Expire = Order_expire x True"

fun callback :: "'s ext \<Rightarrow> transition \<Rightarrow> 's broker \<Rightarrow> nat \<Rightarrow> (error + unit) \<times> 's broker" where
  "callback x Submit = u_submit x"
| "callback x Accept = u_accept x"
| "callback x Reject = u_reject x"
| "callback x Cancel = u_cancel x"
| "callback x Expire = u_expire x"

text \<open>
  \<^verbatim>\<open>submit\<close>.  \<^verbatim>\<open>self.orders\<close> is an \<^verbatim>\<open>OrderedDict\<close>, which has no method
  \<^verbatim>\<open>append\<close>: the statement \<^verbatim>\<open>self.orders.append(order)\<close> raises, after the order was
  marked and put on \<^verbatim>\<open>self.submitted\<close>.  \<^verbatim>\<open>submit_accept\<close> is not defined in the class;
  what the base class does for it is a parameter.
\<close>

definition OrderedDict_append :: "(nat \<rightharpoonup> addr) \<Rightarrow> addr \<Rightarrow> error + (nat \<rightharpoonup> addr)" where
  "OrderedDict_append m a = Inl AttributeError"

definition submit :: "'s ext \<Rightarrow> 's broker \<Rightarrow> addr \<Rightarrow> (error + addr) \<times> 's broker" where
  "submit x b a =
     (if p_checksubmit b then
        (case Order_submit x False (heap b a) of
           Inl e \<Rightarrow> (Inl e, b)
         | Inr ord1 \<Rightarrow>
             (let b1 = b\<lparr>heap := (heap b)(a := ord1), submitted := submitted b @ [a]\<rparr> in
              case OrderedDict_append (orders b1) a of
                Inl e \<Rightarrow> (Inl e, b1)
              | Inr m \<Rightarrow>
                  (case notify x (b1\<lparr>orders := m\<rparr>) a of
                     (Inl e, b2) \<Rightarrow> (Inl e, b2)
                   | (Inr u, b2) \<Rightarrow> (Inr a, b2))))
      else
        (case submit_accept x b a of
           (Inl e, b1) \<Rightarrow> (Inl e, b1)
         | (Inr u, b1) \<Rightarrow> (Inr a, b1)))"

subsection \<open>Fills\<close>

text \<open>
  \<^verbatim>\<open>self.positions\<close> is a \<^verbatim>\<open>defaultdict(Position)\<close>: reading a key it does not hold
  stores a new position (size 0, price 0.0) under it.
\<close>

definition new_position :: position where
  "new_position = \<lparr>pos_size = 0, pos_price = 0\<rparr>"

definition getposition :: "'s broker \<Rightarrow> nat \<Rightarrow> (error + position) \<times> 's broker" where
  "getposition b d =
     (case positions b d of
        Some p \<Rightarrow> (Inr p, b)
      | None \<Rightarrow> (Inr new_position, b\<lparr>positions := (positions b)(d \<mapsto> new_position)\<rparr>))"

text \<open>
  A call of \<^verbatim>\<open>getposition\<close> with keyword arguments.  The method is declared as
  \<^verbatim>\<open>getposition(self, data)\<close>, so any keyword besides the positional \<^verbatim>\<open>data\<close> is a
  \<^verbatim>\<open>TypeError\<close>, raised before the body runs.
\<close>

definition getposition_kw :: "'s broker \<Rightarrow> nat \<Rightarrow> string list \<Rightarrow> (error + position) \<times> 's broker" where
  "getposition_kw b d kws = (if kws = [] then getposition b d else (Inl TypeError, b))"

text \<open>
  \<^verbatim>\<open>_fill\<close> from \<^verbatim>\<open>pos.update(size, price)\<close> to the end.  The position object that
  \<^verbatim>\<open>update\<close> changes is the one in the table.
\<close>

definition fill_rest ::
  "'s ext \<Rightarrow> 's broker \<Rightarrow> addr \<Rightarrow> nat \<Rightarrow> position \<Rightarrow> real \<Rightarrow> real \<Rightarrow> (error + unit) \<times> 's broker" where
  "fill_rest x b a d pos sz price =
     (case Position_update x sz price pos of
        Inl e \<Rightarrow> (Inl e, b)
      | Inr ((psize, pprice, opened_sz, closed_sz), pos1) \<Rightarrow>
          (let b1 = b\<lparr>positions := (positions b)(d \<mapsto> pos1)\<rparr> in
           case getcommissioninfo x d of
             Inl e \<Rightarrow> (Inl e, b1)
           | Inr comminfo \<Rightarrow>
               (case datetime0 x d of
                  Inl e \<Rightarrow> (Inl e, b1)
                | Inr dt \<Rightarrow>
                    (case Order_execute x
                            \<lparr>x_dt = dt, x_size = sz, x_price = price,
                             x_closed = closed_sz, x_closedvalue = 0, x_closedcomm = 0,
                             x_opened = opened_sz, x_openedvalue = 0, x_openedcomm = 0,
                             x_margin = 0, x_pnl = 0, x_psize = psize, x_pprice = pprice\<rparr>
                            (heap b1 a) of
                       Inl e \<Rightarrow> (Inl e, b1)
                     | Inr ord1 \<Rightarrow>
                         (case (if ex_remsize ord1 \<noteq> 0 then Order_partial x ord1
                                else Order_completed x ord1) of
                            Inl e \<Rightarrow> (Inl e, b1\<lparr>heap := (heap b1)(a := ord1)\<rparr>)
                          | Inr ord2 \<Rightarrow> notify x (b1\<lparr>heap := (heap b1)(a := ord2)\<rparr>) a)))))"

definition u_fill :: "'s ext \<Rightarrow> 's broker \<Rightarrow> nat \<Rightarrow> real \<Rightarrow> real \<Rightarrow> (error + unit) \<times> 's broker" where
  "u_fill x b oref sz price =
     (case orders b oref of
        None \<Rightarrow> (Inl KeyError, b)
      | Some a \<Rightarrow>
          (let d = data (heap b a) in
           case getposition_kw b d [''clone''] of
             (Inl e, b1) \<Rightarrow> (Inl e, b1)
           | (Inr pos, b1) \<Rightarrow> fill_rest x b1 a d pos sz price))"

subsection \<open>Orders of the strategy\<close>

text \<open>
  \<^verbatim>\<open>buy\<close> and \<^verbatim>\<open>sell\<close>: build the order (a new object), add the extra keywords to its
  info, register it under its \<^verbatim>\<open>ref\<close>, and return what the store's \<^verbatim>\<open>order_create\<close>
  returns.  The two methods differ in the constructor only; \<open>place\<close> is their body
  with the constructor left open.  \<open>order_info\<close> reads \<^verbatim>\<open>order.info\<close> of the object at
  an address, and \<open>order_addinfo\<close> is the statement \<^verbatim>\<open>order.addinfo(**kwargs)\<close>: it
  writes to the dictionary that the order holds.
\<close>

definition order_info :: "'s broker \<Rightarrow> addr \<Rightarrow> (string \<rightharpoonup> string)" where
  "order_info b a = infos b (info (heap b a))"

definition order_addinfo ::
  "'s ext \<Rightarrow> 's broker \<Rightarrow> addr \<Rightarrow> (string \<times> string) list \<Rightarrow> (error + unit) \<times> 's broker" where
  "order_addinfo x b a kwargs =
     (case Order_addinfo x kwargs (order_info b a) of
        Inl e \<Rightarrow> (Inl e, b)
      | Inr i \<Rightarrow> (Inr (), b\<lparr>infos := (infos b)(info (heap b a) := i)\<rparr>))"

definition place ::
  "'s ext \<Rightarrow> (order_args \<Rightarrow> error + order) \<Rightarrow> 's broker \<Rightarrow> order_args \<Rightarrow> (string \<times> string) list
     \<Rightarrow> (error + nat) \<times> 's broker" where
  "place x ctor b args kwargs =
     (case ctor args of
        Inl e \<Rightarrow> (Inl e, b)
      | Inr ord0 \<Rightarrow>
          (let a = nxt b; b1 = b\<lparr>heap := (heap b)(a := ord0), nxt := Suc a\<rparr> in
           case order_addinfo x b1 a kwargs of
             (Inl e, b2) \<Rightarrow> (Inl e, b2)
           | (Inr u, b2) \<Rightarrow>
               (let b3 = b2\<lparr>orders := (orders b2)(ref (heap b2 a) \<mapsto> a)\<rparr> in
                case order_create x (heap b3 a) (store b3) of
                  Inl e \<Rightarrow> (Inl e, b3)
                | Inr (r, st) \<Rightarrow> (Inr r, b3\<lparr>store := st\<rparr>))))"

definition buy ::
  "'s ext \<Rightarrow> 's broker \<Rightarrow> order_args \<Rightarrow> (string \<times> string) list \<Rightarrow> (error + nat) \<times> 's broker" where
  "buy x b args kwargs = place x (BuyOrder x) b args kwargs"

definition sell ::
  "'s ext \<Rightarrow> 's broker \<Rightarrow> order_args \<Rightarrow> (string \<times> string) list \<Rightarrow> (error + nat) \<times> 's broker" where
  "sell x b args kwargs = place x (SellOrder x) b args kwargs"


subsection \<open>What the specification says cash is\<close>

text \<open>
  The cash that the specification expects after a run of fills, written from its words
  ("starting cash plus sum of (signed proceeds - commission) over all fills") and its
  scenario (10000 of cash, 10 units bought at 100 with no commission, leave 9000): a
  fill of signed size \<open>sz\<close> at \<open>price\<close> yields the proceeds \<open>- sz * price\<close>.  Each
  fill is \<open>(size, price, commission)\<close>.
\<close>

definition spec_cash :: "real \<Rightarrow> (real \<times> real \<times> real) list \<Rightarrow> real" where
  "spec_cash start fs = start + (\<Sum>(sz, price, comm) \<leftarrow> fs. - sz * price - comm)"

subsection \<open>A plain set of collaborators, and two brokers\<close>

text \<open>
  Collaborators for running the broker on concrete inputs, after the classes of
  backtrader.  \<^verbatim>\<open>submit\<close>, \<^verbatim>\<open>accept\<close> and \<^verbatim>\<open>reject\<close> take the broker as an optional
  argument and store their status in the order; \<^verbatim>\<open>cancel\<close> and \<^verbatim>\<open>expire\<close> take no
  argument, so a call that passes the broker is a \<^verbatim>\<open>TypeError\<close>.  \<^verbatim>\<open>execute\<close> adds the
  size to the executed size and takes it from the remaining size.  \<^verbatim>\<open>clone\<close> copies
  the fields of the order, the address of its info dictionary among them, so the copy
  holds the same dictionary.  \<^verbatim>\<open>addinfo\<close> sets the given keys.  The constructors make
  an order of the given size (negated for a sale) whatever the size is, and the store
  files the \<^verbatim>\<open>ref\<close> of each request.  \<open>plain_ext r\<close> is the set whose constructors give
  the reference number \<open>r\<close>, with the info dictionary at the address \<open>r\<close>.
\<close>

definition mark :: "status \<Rightarrow> order \<Rightarrow> error + order" where
  "mark s ord = Inr (ord\<lparr>status := s\<rparr>)"

definition no_argument :: "(order \<Rightarrow> error + order) \<Rightarrow> bool \<Rightarrow> order \<Rightarrow> error + order" where
  "no_argument m passed ord = (if passed then Inl TypeError else m ord)"

definition plain_execute :: "exec_args \<Rightarrow> order \<Rightarrow> error + order" where
  "plain_execute xa ord =
     Inr (ord\<lparr>ex_size := ex_size ord + x_size xa, ex_price := x_price xa,
              ex_remsize := ex_remsize ord - x_size xa\<rparr>)"

definition plain_order :: "nat \<Rightarrow> real \<Rightarrow> order_args \<Rightarrow> error + order" where
  "plain_order r sz args =
     Inr \<lparr>ref = r, status = Created, data = a_data args, osize = sz,
          ex_size = 0, ex_price = 0, ex_remsize = sz, info = r\<rparr>"

definition plain_update ::
  "real \<Rightarrow> real \<Rightarrow> position \<Rightarrow> error + ((real \<times> real \<times> real \<times> real) \<times> position)" where
  "plain_update sz price p =
     Inr ((pos_size p + sz, price, sz, 0), \<lparr>pos_size = pos_size p + sz, pos_price = price\<rparr>)"

definition plain_ext :: "nat \<Rightarrow> (nat list) ext" where
  "plain_ext r =
     \<lparr>Order_submit = (\<lambda>passed. mark Submitted),
      Order_accept = (\<lambda>passed. mark Accepted),
      Order_reject = (\<lambda>passed. mark Rejected),
      Order_cancel = no_argument (mark Cancelled),
      Order_expire = no_argument (mark Expired),
      Order_execute = plain_execute,
      Order_partial = mark Partial,
      Order_completed = mark Completed,
      Order_clone = Inr,
      Order_addinfo = (\<lambda>kw i. Inr (i ++ map_of kw)),
      BuyOrder = (\<lambda>args. plain_order r (a_size args) args),
      SellOrder = (\<lambda>args. plain_order r (- a_size args) args),
      Position_update = plain_update,
      datetime0 = (\<lambda>d. Inr 0),
      getcommissioninfo = (\<lambda>d. Inr ()),
      submit_accept = (\<lambda>b a. (Inl AttributeError, b)),
      order_create = (\<lambda>ord s. Inr (ref ord, s @ [ref ord])),
      order_cancel = (\<lambda>ord s. Inr (ref ord, s @ [ref ord]))\<rparr>"

text \<open>
  A broker with 10000 of cash and one registered order, number 1, at address 0: a
  purchase of 10 units, accepted, nothing executed yet, whose info dictionary (at
  address 1) holds \<open>k = v\<close>.  Every other address holds a blank order.  In
  \<open>broker_of st\<close> the registered order has the status \<open>st\<close> instead.
\<close>

definition order0 :: order where
  "order0 =
     \<lparr>ref = 0, status = Created, data = 0, osize = 0,
      ex_size = 0, ex_price = 0, ex_remsize = 0, info = 0\<rparr>"

definition order1 :: order where
  "order1 =
     \<lparr>ref = 1, status = Accepted, data = 0, osize = 10,
      ex_size = 0, ex_price = 0, ex_remsize = 10, info = 1\<rparr>"

definition broker_of :: "status \<Rightarrow> (nat list) broker" where
  "broker_of st =
     \<lparr>startingcash = 10000, cash = 10000, p_cash = 10000,
      p_checksubmit = True, p_eosbar = False,
      orders = [1 \<mapsto> 0], pending = [], positions = Map.empty,
      notifs = [], submitted = [], store = [],
      heap = (\<lambda>a. order0)(0 := order1\<lparr>status := st\<rparr>), nxt = 1,
      infos = (\<lambda>a. Map.empty)(1 := [''k'' \<mapsto> ''v''])\<rparr>"

definition broker1 :: "(nat list) broker" where
  "broker1 = broker_of Accepted"

text \<open>The arguments of an order for \<open>sz\<close> units of data feed 0, everything else left out.\<close>

definition args_of_size :: "real \<Rightarrow> order_args" where
  "args_of_size sz =
     \<lparr>a_owner = 0, a_data = 0, a_size = sz, a_price = None, a_pricelimit = None,
      a_exectype = None, a_valid = None, a_tradeid = 0\<rparr>"

text \<open>
  \<open>broker1\<close> with a second order object at address 1 whose number, 9, is not in the
  registry.
\<close>

definition broker_unknown :: "(nat list) broker" where
  "broker_unknown = broker1\<lparr>heap := (heap broker1)(1 := order1\<lparr>ref := 9\<rparr>), nxt := 2\<rparr>"

section \<open>Properties\<close>

lemma get_notification_empty:
  "notifs b = [] \<Longrightarrow> get_notification b = (Inr None, b)"
  by (simp add: get_notification_def)

lemma poll_empty:
  "notifs b = [] \<Longrightarrow> poll k b = (replicate k (Inr None), b)"
  by (induction k) (simp_all add: get_notification_empty)

text \<open>
  C7.  When the notification queue is empty, \<^verbatim>\<open>get_notification()\<close> returns \<open>None\<close>,
  raises nothing and leaves every field of the broker as it was, and so do any number
  of calls made one after the other.
\<close>

theorem get_notification_on_empty_queue:
  assumes "notifs b = []"
  shows "get_notification b = (Inr None, b) \<and> poll k b = (replicate k (Inr None), b)"
  using assms by (simp add: get_notification_empty poll_empty)

theorem get_notification_on_empty_queue_witness:
  "notifs broker1 = [] \<and> get_notification broker1 = (Inr None, broker1)
     \<and> poll 3 broker1 = ([Inr None, Inr None, Inr None], broker1)"
proof -
  have e: "notifs broker1 = []"
    by (simp add: broker1_def broker_of_def)
  show ?thesis
    using e get_notification_on_empty_queue [OF e, of 3]
    by (simp add: numeral_3_eq_3)
qed

text \<open>
  C10.  \<^verbatim>\<open>get_value\<close> returns 0.0 for every argument and in every state of the broker,
  and changes nothing.
\<close>

theorem get_value_is_zero:
  "get_value b datas = (Inr 0, b)"
  by (simp add: get_value_def)

subsection \<open>Facts about the single methods\<close>

lemma notify_success:
  "fst (notify x b a) = Inr u \<Longrightarrow> notifs (snd (notify x b a)) = notifs b @ [Some (nxt b)]"
  by (simp add: notify_def split: sum.splits)

lemma notify_frame:
  "cash (snd (notify x b a)) = cash b \<and> startingcash (snd (notify x b a)) = startingcash b"
  by (simp add: notify_def split: sum.splits)

lemma callback_unfold: "callback x t b oref = lookup_call_notify x (method_of x t) b oref"
  by (cases t) (simp_all add: u_submit_def u_accept_def u_reject_def u_cancel_def u_expire_def)

lemma callback_success:
  "fst (callback x t b oref) = Inr u \<Longrightarrow>
   notifs (snd (callback x t b oref)) = notifs b @ [Some (nxt b)]"
  by (auto simp: callback_unfold lookup_call_notify_def notify_def
      split: option.splits sum.splits)

text \<open>
  A callback on a registered order fails only with what the call of the order's method
  or \<^verbatim>\<open>clone\<close> raised.
\<close>

lemma callback_failure_origin:
  assumes "orders b oref = Some a" and "fst (callback x t b oref) = Inl e"
  shows "method_of x t (heap b a) = Inl e
     \<or> (\<exists>ord1. method_of x t (heap b a) = Inr ord1 \<and> Order_clone x ord1 = Inl e)"
  using assms
  by (auto simp: callback_unfold lookup_call_notify_def notify_def split: sum.splits)

lemma callback_unknown_order:
  "orders b oref = None \<Longrightarrow> callback x t b oref = (Inl KeyError, b)"
  by (simp add: callback_unfold lookup_call_notify_def)

text \<open>
  An object that no registry entry points to is left alone by every callback: a
  callback writes to the registered order and to a new address only.
\<close>

lemma callback_keeps_snapshot:
  assumes "s < nxt b" and "s \<notin> ran (orders b)"
  shows "heap (snd (callback x t b oref)) s = heap b s
     \<and> s < nxt (snd (callback x t b oref))
     \<and> orders (snd (callback x t b oref)) = orders b"
  using assms
  by (auto simp: callback_unfold lookup_call_notify_def notify_def ran_def
      split: option.splits sum.splits)

text \<open>
  \<^verbatim>\<open>_fill\<close> never gets past \<^verbatim>\<open>self.getposition(data, clone=False)\<close>: for a registered
  order it raises \<^verbatim>\<open>TypeError\<close>, for any other number \<^verbatim>\<open>KeyError\<close>, and in both
  cases nothing was assigned before.
\<close>

lemma u_fill_raises:
  "u_fill x b oref sz price =
     (case orders b oref of None \<Rightarrow> (Inl KeyError, b) | Some a \<Rightarrow> (Inl TypeError, b))"
  by (simp add: u_fill_def getposition_kw_def split: option.splits)

text \<open>
  The statements of \<^verbatim>\<open>_fill\<close> after the position lookup: none of them assigns cash,
  and when they return normally they have appended one snapshot.  Run on the order of
  \<open>broker1\<close>, 4 of 10 units leave the order Partial and 10 of 10 complete it.
\<close>

lemma fill_rest_cash:
  "cash (snd (fill_rest x b a d pos sz price)) = cash b
   \<and> startingcash (snd (fill_rest x b a d pos sz price)) = startingcash b"
  by (simp add: fill_rest_def Let_def notify_frame split: sum.splits prod.splits)

lemma fill_rest_success:
  "fst (fill_rest x b a d pos sz price) = Inr u \<Longrightarrow>
   notifs (snd (fill_rest x b a d pos sz price)) = notifs b @ [Some (nxt b)]"
  by (auto simp: fill_rest_def Let_def notify_def split: sum.splits prod.splits if_splits)

lemma fill_rest_marks_partial_or_completed:
  "status (heap (snd (fill_rest (plain_ext 2) broker1 0 0 new_position 4 100)) 0) = Partial
   \<and> ex_size (heap (snd (fill_rest (plain_ext 2) broker1 0 0 new_position 4 100)) 0) = 4
   \<and> status (heap (snd (fill_rest (plain_ext 2) broker1 0 0 new_position 10 100)) 0) = Completed"
  by (simp add: fill_rest_def notify_def plain_ext_def plain_update_def plain_execute_def
      mark_def new_position_def broker1_def broker_of_def order1_def)

lemma place_notifs: "notifs (snd (place x ctor b args kw)) = notifs b"
  by (simp add: place_def order_addinfo_def Let_def split: sum.splits prod.splits)

lemma place_registers:
  "ctor args = Inr ord0 \<Longrightarrow> Order_addinfo x kw (infos b (info ord0)) = Inr i1 \<Longrightarrow>
   orders (snd (place x ctor b args kw)) = (orders b)(ref ord0 \<mapsto> nxt b)
   \<and> heap (snd (place x ctor b args kw)) (nxt b) = ord0
   \<and> infos (snd (place x ctor b args kw)) (info ord0) = i1"
  by (simp add: place_def order_addinfo_def order_info_def Let_def
      split: sum.splits prod.splits)

subsection \<open>Fills\<close>

text \<open>
  C1.  The claim expects the cash after a fill to be the cash before plus the signed
  proceeds less the commission: 9000 after 10 units are bought at 100 from 10000 with
  no commission.  On \<open>broker1\<close>, \<^verbatim>\<open>_fill(1, 10, 100)\<close> raises \<^verbatim>\<open>TypeError\<close> at the
  position lookup and the cash is 10000 as before.
\<close>

theorem fill_leaves_cash_where_it_was:
  "cash broker1 = 10000
   \<and> orders broker1 1 = Some 0
   \<and> u_fill (plain_ext 2) broker1 1 10 100 = (Inl TypeError, broker1)
   \<and> cash (snd (u_fill (plain_ext 2) broker1 1 10 100)) = 10000
   \<and> spec_cash (cash broker1) [(10, 100, 0)] = 9000"
  by (simp add: u_fill_def getposition_kw_def spec_cash_def broker1_def broker_of_def)

text \<open>
  C2.  The claim expects a fill to raise the executed size of the order and to leave it
  Partial while something remains.  On the accepted order 1 of \<open>broker1\<close> (10 units,
  none executed), \<^verbatim>\<open>_fill(1, 4, 100)\<close> raises \<^verbatim>\<open>TypeError\<close> at the position lookup and
  the broker is as before: the order is still Accepted, with nothing executed and 10
  remaining, and the queue is empty.
\<close>

theorem fill_of_registered_order_raises:
  "orders broker1 1 = Some 0
   \<and> u_fill (plain_ext 2) broker1 1 4 100 = (Inl TypeError, broker1)
   \<and> status (heap broker1 0) = Accepted
   \<and> ex_size (heap broker1 0) = 0
   \<and> ex_remsize (heap broker1 0) = 10
   \<and> notifs broker1 = []"
  by (simp add: u_fill_def getposition_kw_def broker1_def broker_of_def order1_def)


subsection \<open>Transitions\<close>

text \<open>
  C3, as the specification words it: a transition on an order in a terminal state fails
  and leaves the order as it was.  The broker does not behave so.  On a Completed
  order, \<^verbatim>\<open>_submit\<close> and \<^verbatim>\<open>_accept\<close> return normally and the order is then Submitted,
  respectively Accepted.
\<close>

theorem transition_on_completed_order_counterexample:
  "status (heap (broker_of Completed) 0) = Completed
   \<and> orders (broker_of Completed) 1 = Some 0
   \<and> fst (u_submit (plain_ext 2) (broker_of Completed) 1) = Inr ()
   \<and> status (heap (snd (u_submit (plain_ext 2) (broker_of Completed) 1)) 0) = Submitted
   \<and> fst (u_accept (plain_ext 2) (broker_of Completed) 1) = Inr ()
   \<and> status (heap (snd (u_accept (plain_ext 2) (broker_of Completed) 1)) 0) = Accepted"
  by (simp add: u_submit_def u_accept_def lookup_call_notify_def notify_def broker_of_def
      plain_ext_def mark_def order1_def)

text \<open>
  C3, amended: \<^verbatim>\<open>_submit\<close>, \<^verbatim>\<open>_accept\<close> and \<^verbatim>\<open>_reject\<close> check no status.  For a
  registered order, terminal or not, each of them calls the order's method; when the
  method and \<^verbatim>\<open>clone\<close> return, the callback returns normally, the order object holds
  what the method left, and one snapshot of it is at the end of the queue.
\<close>

theorem callback_applies_method_unchecked:
  assumes "t \<in> {Submit, Accept, Reject}"
    and "orders b oref = Some a"
    and "method_of x t (heap b a) = Inr ord1"
    and "Order_clone x ord1 = Inr c"
  shows "callback x t b oref =
           (Inr (), b\<lparr>heap := (heap b)(a := ord1, nxt b := c), nxt := Suc (nxt b),
                       notifs := notifs b @ [Some (nxt b)]\<rparr>)"
  using assms by (simp add: callback_unfold lookup_call_notify_def notify_def)

theorem callback_applies_method_unchecked_witness:
  "Accept \<in> {Submit, Accept, Reject}
   \<and> orders (broker_of Expired) 1 = Some 0
   \<and> status (heap (broker_of Expired) 0) = Expired
   \<and> method_of (plain_ext 2) Accept (heap (broker_of Expired) 0)
        = Inr (order1\<lparr>status := Accepted\<rparr>)
   \<and> Order_clone (plain_ext 2) (order1\<lparr>status := Accepted\<rparr>)
        = Inr (order1\<lparr>status := Accepted\<rparr>)
   \<and> callback (plain_ext 2) Accept (broker_of Expired) 1 =
       (Inr (), (broker_of Expired)
          \<lparr>heap := (heap (broker_of Expired))
                    (0 := order1\<lparr>status := Accepted\<rparr>, 1 := order1\<lparr>status := Accepted\<rparr>),
           nxt := 2, notifs := [Some 1]\<rparr>)"
proof -
  have t: "Accept \<in> {Submit, Accept, Reject}"
    by simp
  have r: "orders (broker_of Expired) 1 = Some 0"
    by (simp add: broker_of_def)
  have m: "method_of (plain_ext 2) Accept (heap (broker_of Expired) 0)
             = Inr (order1\<lparr>status := Accepted\<rparr>)"
    by (simp add: plain_ext_def mark_def broker_of_def)
  have c: "Order_clone (plain_ext 2) (order1\<lparr>status := Accepted\<rparr>)
             = Inr (order1\<lparr>status := Accepted\<rparr>)"
    by (simp add: plain_ext_def)
  show ?thesis
    using t r m c callback_applies_method_unchecked [OF t r m c]
    by (simp add: broker_of_def)
qed

subsection \<open>Orders of the strategy\<close>

text \<open>
  C4, as the specification words it: \<^verbatim>\<open>buy\<close> and \<^verbatim>\<open>sell\<close> of a size that is not
  positive fail, and the order never reaches the registry.  The broker does not behave
  so.  With constructors that accept a size of 0, \<^verbatim>\<open>buy\<close> and \<^verbatim>\<open>sell\<close> of 0 units
  return the store's answer and the order, of size 0, is registered under its number.
\<close>

theorem buy_of_size_zero_counterexample:
  "a_size (args_of_size 0) = 0
   \<and> orders broker1 7 = None
   \<and> fst (buy (plain_ext 7) broker1 (args_of_size 0) []) = Inr 7
   \<and> orders (snd (buy (plain_ext 7) broker1 (args_of_size 0) [])) 7 = Some 1
   \<and> osize (heap (snd (buy (plain_ext 7) broker1 (args_of_size 0) [])) 1) = 0
   \<and> fst (sell (plain_ext 7) broker1 (args_of_size 0) []) = Inr 7
   \<and> orders (snd (sell (plain_ext 7) broker1 (args_of_size 0) [])) 7 = Some 1"
  by (simp add: buy_def sell_def place_def order_addinfo_def order_info_def Let_def
      plain_ext_def plain_order_def args_of_size_def broker1_def broker_of_def)

text \<open>
  C4, amended: \<^verbatim>\<open>buy\<close> and \<^verbatim>\<open>sell\<close> check nothing about the size.  Whenever the
  constructor and \<^verbatim>\<open>addinfo\<close> return, for any size, the new order object is registered
  under its number and its info dictionary holds what \<^verbatim>\<open>addinfo\<close> left, whatever the
  store answers afterwards; and in no case do \<^verbatim>\<open>buy\<close> and \<^verbatim>\<open>sell\<close> put anything on
  the notification queue.
\<close>

theorem buy_sell_register_any_size:
  "notifs (snd (buy x b args kw)) = notifs b
   \<and> notifs (snd (sell x b args kw)) = notifs b
   \<and> (BuyOrder x args = Inr ord0 \<longrightarrow> Order_addinfo x kw (infos b (info ord0)) = Inr i1 \<longrightarrow>
        orders (snd (buy x b args kw)) = (orders b)(ref ord0 \<mapsto> nxt b)
        \<and> heap (snd (buy x b args kw)) (nxt b) = ord0
        \<and> infos (snd (buy x b args kw)) (info ord0) = i1)
   \<and> (SellOrder x args = Inr ord2 \<longrightarrow> Order_addinfo x kw (infos b (info ord2)) = Inr i3 \<longrightarrow>
        orders (snd (sell x b args kw)) = (orders b)(ref ord2 \<mapsto> nxt b)
        \<and> heap (snd (sell x b args kw)) (nxt b) = ord2
        \<and> infos (snd (sell x b args kw)) (info ord2) = i3)"
  unfolding buy_def sell_def
  using place_registers [of "BuyOrder x" args ord0 x kw b i1]
    place_registers [of "SellOrder x" args ord2 x kw b i3]
  by (simp add: place_notifs)

theorem buy_sell_register_any_size_witness:
  "BuyOrder (plain_ext 7) (args_of_size (- 3)) = plain_order 7 (- 3) (args_of_size (- 3))
   \<and> SellOrder (plain_ext 7) (args_of_size (- 3)) = plain_order 7 3 (args_of_size (- 3))
   \<and> Order_addinfo (plain_ext 7) [(''k'', ''v'')] (infos broker1 7) = Inr [''k'' \<mapsto> ''v'']
   \<and> orders (snd (buy (plain_ext 7) broker1 (args_of_size (- 3)) [(''k'', ''v'')])) 7 = Some 1
   \<and> osize (heap (snd (buy (plain_ext 7) broker1 (args_of_size (- 3)) [(''k'', ''v'')])) 1) = - 3
   \<and> infos (snd (buy (plain_ext 7) broker1 (args_of_size (- 3)) [(''k'', ''v'')])) 7
       = [''k'' \<mapsto> ''v'']
   \<and> orders (snd (sell (plain_ext 7) broker1 (args_of_size (- 3)) [(''k'', ''v'')])) 7 = Some 1
   \<and> notifs (snd (buy (plain_ext 7) broker1 (args_of_size (- 3)) [(''k'', ''v'')])) = []
   \<and> notifs (snd (sell (plain_ext 7) broker1 (args_of_size (- 3)) [(''k'', ''v'')])) = []"
  using buy_sell_register_any_size
    [of "plain_ext 7" broker1 "args_of_size (- 3)" "[(''k'', ''v'')]"
      "\<lparr>ref = 7, status = Created, data = 0, osize = - 3,
        ex_size = 0, ex_price = 0, ex_remsize = - 3, info = 7\<rparr>"
      "[''k'' \<mapsto> ''v'']"
      "\<lparr>ref = 7, status = Created, data = 0, osize = 3,
        ex_size = 0, ex_price = 0, ex_remsize = 3, info = 7\<rparr>"
      "[''k'' \<mapsto> ''v'']"]
  by (simp add: plain_ext_def plain_order_def args_of_size_def broker1_def broker_of_def)



text \<open>
  C6.  \<^verbatim>\<open>orderstatus\<close> of an order whose number is not in the registry raises
  \<^verbatim>\<open>KeyError\<close> (the specification's UnknownOrder) and returns no status, in every state
  of the broker.  \<^verbatim>\<open>submit\<close> under \<^verbatim>\<open>checksubmit\<close> does not change that: it ends in an
  exception and leaves the registry as it was, so an order that was only submitted is
  as unknown afterwards as before.
\<close>

theorem orderstatus_unknown_order:
  assumes "orders b (ref (heap b a)) = None"
  shows "orderstatus b a = (Inl KeyError, b)
     \<and> (p_checksubmit b \<longrightarrow>
          orders (snd (submit x b a')) = orders b \<and> (\<exists>e. fst (submit x b a') = Inl e))"
  using assms
  by (simp add: orderstatus_def submit_def Let_def OrderedDict_append_def split: sum.splits)

theorem orderstatus_unknown_order_witness:
  "orders broker_unknown (ref (heap broker_unknown 1)) = None
   \<and> p_checksubmit broker_unknown
   \<and> orderstatus broker_unknown 1 = (Inl KeyError, broker_unknown)
   \<and> fst (submit (plain_ext 2) broker_unknown 1) = Inl AttributeError
   \<and> orders (snd (submit (plain_ext 2) broker_unknown 1)) 9 = None"
proof -
  have u: "orders broker_unknown (ref (heap broker_unknown 1)) = None"
    by (simp add: broker_unknown_def broker1_def broker_of_def)
  have s: "fst (submit (plain_ext 2) broker_unknown 1) = Inl AttributeError"
    by (simp add: submit_def OrderedDict_append_def plain_ext_def mark_def
        broker_unknown_def broker1_def broker_of_def)
  show ?thesis
    using u s orderstatus_unknown_order [OF u, of "plain_ext 2" 1]
    by (simp add: broker_unknown_def broker1_def broker_of_def)
qed

subsection \<open>Snapshots\<close>

text \<open>
  C8, as the specification words it: no mutation of the live order after \<^verbatim>\<open>notify\<close>
  changes the content of the notification already on the queue.  The broker does not
  behave so.  The snapshot of order 1 holds the info dictionary of the order itself:
  it reads \<open>k = v\<close> when it is put on the queue, and \<open>k = changed\<close> after
  \<^verbatim>\<open>order.addinfo(k='changed')\<close> on the live order.
\<close>

theorem later_addinfo_shows_in_snapshot_counterexample:
  "fst (notify (plain_ext 2) broker1 0) = Inr ()
   \<and> notifs (snd (notify (plain_ext 2) broker1 0)) = [Some 1]
   \<and> order_info (snd (notify (plain_ext 2) broker1 0)) 1 ''k'' = Some ''v''
   \<and> fst (order_addinfo (plain_ext 2) (snd (notify (plain_ext 2) broker1 0)) 0
            [(''k'', ''changed'')]) = Inr ()
   \<and> order_info (snd (order_addinfo (plain_ext 2) (snd (notify (plain_ext 2) broker1 0)) 0
                        [(''k'', ''changed'')])) 1 ''k'' = Some ''changed''"
  by (simp add: notify_def order_addinfo_def order_info_def plain_ext_def broker1_def
      broker_of_def order1_def)

text \<open>
  C8, amended: the snapshot keeps its own fields.  When \<^verbatim>\<open>clone\<close> returns for an
  existing order object, in a broker whose registered orders all exist, \<^verbatim>\<open>notify\<close>
  returns normally and appends to the queue the address of a new object that holds
  what \<^verbatim>\<open>clone\<close> returned, leaving the order object as it was; a later assignment to
  the fields of the order object, and a later callback of the store on any order,
  leave the fields of that new object as they were.  What the info dictionary holds
  is not part of this.
\<close>

theorem snapshot_keeps_its_fields:
  assumes "a < nxt b"
    and "ran (orders b) \<subseteq> {..<nxt b}"
    and "Order_clone x (heap b a) = Inr c"
  shows "fst (notify x b a) = Inr ()
     \<and> notifs (snd (notify x b a)) = notifs b @ [Some (nxt b)]
     \<and> heap (snd (notify x b a)) (nxt b) = c
     \<and> heap (snd (notify x b a)) a = heap b a
     \<and> heap ((snd (notify x b a))\<lparr>heap := (heap (snd (notify x b a)))(a := v)\<rparr>) (nxt b) = c
     \<and> heap (snd (callback x t (snd (notify x b a)) oref)) (nxt b) = c"
proof -
  let ?b' = "snd (notify x b a)"
  have n: "notify x b a =
      (Inr (), b\<lparr>heap := (heap b)(nxt b := c), nxt := Suc (nxt b),
                  notifs := notifs b @ [Some (nxt b)]\<rparr>)"
    using assms(3) by (simp add: notify_def)
  have fresh: "nxt b \<notin> ran (orders ?b')"
    using assms(2) by (auto simp: n)
  have lt: "nxt b < nxt ?b'"
    by (simp add: n)
  have k: "heap (snd (callback x t ?b' oref)) (nxt b) = heap ?b' (nxt b)"
    using callback_keeps_snapshot [OF lt fresh] by simp
  show ?thesis
    using assms(1) k by (simp add: n)
qed

theorem snapshot_keeps_its_fields_witness:
  "(0::nat) < nxt broker1
   \<and> ran (orders broker1) \<subseteq> {..<nxt broker1}
   \<and> Order_clone (plain_ext 2) (heap broker1 0) = Inr order1
   \<and> heap broker1 1 = order0
   \<and> notifs (snd (notify (plain_ext 2) broker1 0)) = [Some 1]
   \<and> heap (snd (notify (plain_ext 2) broker1 0)) 1 = order1
   \<and> status (heap (snd (callback (plain_ext 2) Submit (snd (notify (plain_ext 2) broker1 0)) 1)) 0)
       = Submitted
   \<and> heap (snd (callback (plain_ext 2) Submit (snd (notify (plain_ext 2) broker1 0)) 1)) 1
       = order1"
proof -
  have l: "(0::nat) < nxt broker1"
    by (simp add: broker1_def broker_of_def)
  have w: "ran (orders broker1) \<subseteq> {..<nxt broker1}"
    by (simp add: broker1_def broker_of_def)
  have c: "Order_clone (plain_ext 2) (heap broker1 0) = Inr order1"
    by (simp add: plain_ext_def broker1_def broker_of_def order1_def)
  have s: "status (heap (snd (callback (plain_ext 2) Submit
                                (snd (notify (plain_ext 2) broker1 0)) 1)) 0) = Submitted"
    by (simp add: u_submit_def lookup_call_notify_def notify_def plain_ext_def mark_def
        broker1_def broker_of_def order1_def)
  have z: "heap broker1 1 = order0"
    by (simp add: broker1_def broker_of_def)
  have q: "nxt broker1 = 1 \<and> notifs broker1 = []"
    by (simp add: broker1_def broker_of_def)
  show ?thesis
    using l w c s z q snapshot_keeps_its_fields [OF l w c, of order0 Submit 1]
    by simp
qed

end
